theory Spec2Isabelle
  imports Complex_Main
begin

section \<open>The vehicle state estimator of rlgym\_compat (\<open>car.py\<close>)\<close>

text \<open>
  This theory embeds the class \<open>Car\<close> of \<open>src/rlgym_compat/car.py\<close> together with the
  override record \<open>ExtraPlayerInfo\<close> of \<open>src/rlgym_compat/extra_info.py\<close>.

  Conventions of the embedding.
  \<^item> Python \<open>float\<close> values are idealised as \<^typ>\<open>real\<close>: timer arithmetic is exact, there
    is no NaN and no rounding. Python \<open>int\<close> values are \<^typ>\<open>int\<close>.
  \<^item> The mutated object \<open>self\<close> is passed explicitly and returned updated. The \<open>let\<close>
    chains rebind \<open>self\<close> statement by statement, in the order of the source.
  \<^item> A leading underscore is dropped from a field name (\<open>_cur_tick\<close> is \<open>cur_tick\<close>).
    The fields of the telemetry sample \<open>PlayerInfo\<close> carry the prefix \<open>pi_\<close> and those of
    \<open>ExtraPlayerInfo\<close> the prefix \<open>x_\<close>, because several of them share their name with a
    field of \<open>Car\<close>.
  \<^item> The slots \<open>_next_action_tick_duration\<close> and \<open>_ball_touch_ticks\<close> are declared by the
    class but neither read nor written by any of its methods; they are left out.
  \<^item> The module \<open>common_values\<close>, the class \<open>PhysicsObject\<close> and the helper
    \<open>compare_hitbox_shape\<close> are imported by \<open>car.py\<close> but are not part of the sources at
    hand. The numeric constants, the physics operations and the shape comparison are
    therefore parameters, collected in the record \<open>common_values\<close>; every theorem holds
    for all of their values unless a hypothesis says otherwise.
\<close>

subsection \<open>Enumerations of the telemetry schema\<close>

text \<open>\<open>rlbot.flat.AirState\<close>: the five discrete air states of the feed.\<close>

datatype AirState = OnGround | Jumping | DoubleJumping | Dodging | InAir

text \<open>
  Modelled from the spec: the hitbox category constants of \<open>common_values\<close> (which is not
  among the sources), as the fixed set of known vehicle-body categories. The source
  stores them in the integer field \<open>hitbox_type\<close>.
\<close>

datatype hitbox = OCTANE | DOMINUS | PLANK | BREAKOUT | HYBRID | MERC

text \<open>\<open>rlbot.flat.BoxShape\<close>.\<close>

record BoxShape =
  shape_length :: real
  shape_width :: real
  shape_height :: real

subsection \<open>Parameters\<close>

record ('ph, 'raw) common_values =
  BLUE_TEAM :: int
  ORANGE_TEAM :: int
  TICK_TIME :: real
  TICKS_PER_SECOND :: real
  MIN_BOOST_TIME :: real
  POWERSLIDE_RISE_RATE :: real
  POWERSLIDE_FALL_RATE :: real
  DOUBLEJUMP_MAX_DELAY :: real
  compare_hitbox_shape :: "BoxShape \<Rightarrow> real \<Rightarrow> real \<Rightarrow> real \<Rightarrow> bool"
  PhysicsObject_create_compat :: 'ph
  PhysicsObject_update :: "'ph \<Rightarrow> 'raw \<Rightarrow> 'ph"
  PhysicsObject_inverted :: "'ph \<Rightarrow> 'ph"

subsection \<open>The telemetry sample and the override record\<close>

text \<open>
  \<open>rlbot.flat.PlayerInfo\<close>, restricted to the fields that \<open>car.py\<close> reads.
  \<open>pi_latest_touch\<close> is the \<open>game_seconds\<close> of the optional \<open>latest_touch\<close>, the only
  component of the touch that is read. \<open>pi_last_input_*\<close> are the components of
  \<open>last_input\<close>.
\<close>

record 'raw PlayerInfo =
  pi_team :: int
  pi_hitbox :: BoxShape
  pi_hitbox_offset :: "real \<times> real \<times> real"
  pi_air_state :: AirState
  pi_boost :: real
  pi_last_input_jump :: bool
  pi_last_input_boost :: bool
  pi_last_input_handbrake :: bool
  pi_has_jumped :: bool
  pi_has_double_jumped :: bool
  pi_has_dodged :: bool
  pi_dodge_elapsed :: real
  pi_dodge_timeout :: real
  pi_dodge_dir :: "real \<times> real"
  pi_demolished_timeout :: real
  pi_is_supersonic :: bool
  pi_latest_touch :: "real option"
  pi_physics :: 'raw

text \<open>\<open>ExtraPlayerInfo\<close> of \<open>extra_info.py\<close>: every field is optional.\<close>

record ExtraPlayerInfo =
  x_wheels_with_contact :: "(bool \<times> bool \<times> bool \<times> bool) option"
  x_handbrake :: "real option"
  x_ball_touches :: "int option"
  x_car_contact_id :: "int option"
  x_car_contact_cooldown_timer :: "real option"
  x_is_autoflipping :: "bool option"
  x_autoflip_timer :: "real option"
  x_autoflip_direction :: "real option"

subsection \<open>The state of one car\<close>

record 'ph Car =
  team_num :: int
  hitbox_type :: hitbox
  ball_touches :: int
  bump_victim_id :: "int option"
  demo_respawn_timer :: real
  wheels_with_contact :: "bool \<times> bool \<times> bool \<times> bool"
  supersonic_time :: real
  boost_amount :: real
  boost_active_time :: real
  handbrake :: real
  is_jumping :: bool
  has_jumped :: bool
  is_holding_jump :: bool
  jump_time :: real
  has_flipped :: bool
  has_double_jumped :: bool
  air_time_since_jump :: real
  flip_time :: real
  flip_torque :: "real \<times> real \<times> real"
  is_autoflipping :: bool
  autoflip_timer :: real
  autoflip_direction :: real
  physics :: 'ph
  inverted_physics_cache :: "'ph option"
  prev_air_state :: AirState
  game_seconds :: real
  cur_tick :: int

text \<open>
  The property \<open>on_ground\<close> (\<open>sum(self.wheels_with_contact) >= 3\<close>) and its setter, which
  writes the same value to the four wheels.
\<close>

definition on_ground :: "('ph, 'm) Car_scheme \<Rightarrow> bool" where
  "on_ground self =
     (case wheels_with_contact self of
        (fl, fr, bl, br) \<Rightarrow>
          (3::nat) \<le> of_bool fl + of_bool fr + of_bool bl + of_bool br)"

definition set_on_ground :: "bool \<Rightarrow> ('ph, 'm) Car_scheme \<Rightarrow> ('ph, 'm) Car_scheme" where
  "set_on_ground v self = self\<lparr>wheels_with_contact := (v, v, v, v)\<rparr>"

definition reset_ball_touches :: "('ph, 'm) Car_scheme \<Rightarrow> ('ph, 'm) Car_scheme" where
  "reset_ball_touches self = self\<lparr>ball_touches := 0\<rparr>"

subsection \<open>Python's \<open>round\<close>\<close>

text \<open>
  \<open>round(x)\<close> with one argument returns the integer nearest to \<open>x\<close>; a tie goes to the
  even neighbour.
\<close>

definition py_round :: "real \<Rightarrow> int" where
  "py_round x =
     (let f = \<lfloor>x\<rfloor>; d = x - of_int f
      in if d < 1 / 2 then f
         else if 1 / 2 < d then f + 1
         else if even f then f else f + 1)"

subsection \<open>\<open>Car.update\<close>\<close>

text \<open>The \<open>match player_info.air_state\<close> statement of \<open>update\<close>.\<close>

definition air_state_step ::
  "('ph, 'raw, 'k) common_values_scheme \<Rightarrow> 'raw PlayerInfo \<Rightarrow> 'ph Car \<Rightarrow> 'ph Car" where
  "air_state_step K player_info self =
     (case pi_air_state player_info of
        OnGround \<Rightarrow>
          (let self = set_on_ground True self;
               self = self\<lparr>is_jumping := False\<rparr>
           in self\<lparr>air_time_since_jump := 0\<rparr>)
      | Jumping \<Rightarrow>
          (let self = (if prev_air_state self = OnGround
                       then self\<lparr>jump_time := 0\<rparr> else self);
               self = set_on_ground (jump_time self \<le> 6 * TICK_TIME K) self
           in self\<lparr>is_jumping := True\<rparr>)
      | InAir \<Rightarrow>
          (let self = set_on_ground False self in self\<lparr>is_jumping := False\<rparr>)
      | Dodging \<Rightarrow>
          (let self = set_on_ground False self in self\<lparr>is_jumping := False\<rparr>)
      | DoubleJumping \<Rightarrow>
          (let self = set_on_ground False self in self\<lparr>is_jumping := False\<rparr>))"

text \<open>The block \<open>if extra_player_info is not None: ...\<close> of \<open>update\<close>.\<close>

definition apply_extra_player_info :: "ExtraPlayerInfo option \<Rightarrow> 'ph Car \<Rightarrow> 'ph Car" where
  "apply_extra_player_info extra_player_info self =
     (case extra_player_info of
        None \<Rightarrow> self
      | Some extra \<Rightarrow>
          (let self = (case x_wheels_with_contact extra of
                         Some w \<Rightarrow> self\<lparr>wheels_with_contact := w\<rparr> | None \<Rightarrow> self);
               self = (case x_handbrake extra of
                         Some h \<Rightarrow> self\<lparr>handbrake := h\<rparr> | None \<Rightarrow> self);
               self = (case x_ball_touches extra of
                         Some n \<Rightarrow> self\<lparr>ball_touches := n\<rparr> | None \<Rightarrow> self);
               self = (case x_car_contact_id extra of
                         None \<Rightarrow> self
                       | Some victim \<Rightarrow>
                           (case x_car_contact_cooldown_timer extra of
                              None \<Rightarrow> self
                            | Some cooldown \<Rightarrow>
                                self\<lparr>bump_victim_id :=
                                       (if 0 < cooldown then Some victim else None)\<rparr>));
               self = (case x_is_autoflipping extra of
                         Some b \<Rightarrow> self\<lparr>is_autoflipping := b\<rparr> | None \<Rightarrow> self);
               self = (case x_autoflip_timer extra of
                         Some t \<Rightarrow> self\<lparr>autoflip_timer := t\<rparr> | None \<Rightarrow> self)
           in (case x_autoflip_direction extra of
                 Some d \<Rightarrow> self\<lparr>autoflip_direction := d\<rparr> | None \<Rightarrow> self)))"

text \<open>
  The remaining statements of \<open>update\<close>, block by block in the order of the source. Each
  block is a function of its own, so that \<open>update\<close> below reads as the sequence of the
  blocks.
\<close>

text \<open>Lines 231--239: the ball-touch counter.\<close>

definition count_ball_touch ::
  "('ph, 'raw, 'k) common_values_scheme \<Rightarrow> 'raw PlayerInfo \<Rightarrow> int \<Rightarrow> 'ph Car \<Rightarrow> 'ph Car" where
  "count_ball_touch K player_info ticks_elapsed self =
     (case pi_latest_touch player_info of
        None \<Rightarrow> self
      | Some touch_game_seconds \<Rightarrow>
          (let ticks_since_touch =
                 py_round ((game_seconds self - touch_game_seconds) * TICKS_PER_SECOND K)
           in if ticks_since_touch < ticks_elapsed
              then self\<lparr>ball_touches := ball_touches self + 1\<rparr>
              else self))"

text \<open>Lines 245--248: the supersonic timer.\<close>

definition supersonic_step :: "'raw PlayerInfo \<Rightarrow> real \<Rightarrow> 'ph Car \<Rightarrow> 'ph Car" where
  "supersonic_step player_info time_elapsed self =
     (if pi_is_supersonic player_info
      then self\<lparr>supersonic_time := supersonic_time self + time_elapsed\<rparr>
      else self\<lparr>supersonic_time := 0\<rparr>)"

text \<open>Lines 251--261: the boost-active timer.\<close>

definition boost_step ::
  "('ph, 'raw, 'k) common_values_scheme \<Rightarrow> 'raw PlayerInfo \<Rightarrow> real \<Rightarrow> 'ph Car \<Rightarrow> 'ph Car" where
  "boost_step K player_info time_elapsed self =
     (if 0 < boost_active_time self
      then (if \<not> pi_last_input_boost player_info
               \<and> MIN_BOOST_TIME K \<le> boost_active_time self
            then self\<lparr>boost_active_time := 0\<rparr>
            else self\<lparr>boost_active_time := boost_active_time self + time_elapsed\<rparr>)
      else (if pi_last_input_boost player_info
            then self\<lparr>boost_active_time := time_elapsed\<rparr>
            else self))"

text \<open>Lines 263--267: the handbrake ramp and its clamp \<open>min(1, max(0, handbrake))\<close>.\<close>

definition handbrake_step ::
  "('ph, 'raw, 'k) common_values_scheme \<Rightarrow> 'raw PlayerInfo \<Rightarrow> real \<Rightarrow> 'ph Car \<Rightarrow> 'ph Car" where
  "handbrake_step K player_info time_elapsed self =
     (let self = (if pi_last_input_handbrake player_info
                  then self\<lparr>handbrake :=
                              handbrake self + POWERSLIDE_RISE_RATE K * time_elapsed\<rparr>
                  else self\<lparr>handbrake :=
                              handbrake self - POWERSLIDE_FALL_RATE K * time_elapsed\<rparr>)
      in self\<lparr>handbrake := min 1 (max 0 (handbrake self))\<rparr>)"

text \<open>Lines 269--276: the flags and flip data copied from the sample.\<close>

definition copy_jump_flags :: "'raw PlayerInfo \<Rightarrow> 'ph Car \<Rightarrow> 'ph Car" where
  "copy_jump_flags player_info self =
     (let self = self\<lparr>is_holding_jump := pi_last_input_jump player_info\<rparr>;
          self = self\<lparr>has_jumped := pi_has_jumped player_info\<rparr>;
          self = self\<lparr>has_double_jumped := pi_has_double_jumped player_info\<rparr>;
          self = self\<lparr>has_flipped := pi_has_dodged player_info\<rparr>;
          self = self\<lparr>flip_time := pi_dodge_elapsed player_info\<rparr>
      in self\<lparr>flip_torque :=
                 (- snd (pi_dodge_dir player_info), fst (pi_dodge_dir player_info),
                  snd (snd (flip_torque self)))\<rparr>)"

text \<open>Lines 277--278: the jump timer.\<close>

definition jump_time_step ::
  "('ph, 'raw, 'k) common_values_scheme \<Rightarrow> int \<Rightarrow> 'ph Car \<Rightarrow> 'ph Car" where
  "jump_time_step K ticks_elapsed self =
     (if has_jumped self \<or> is_jumping self
      then self\<lparr>jump_time := jump_time self + TICK_TIME K * of_int ticks_elapsed\<rparr>
      else self)"

text \<open>Lines 279--282: the time in the air since the jump.\<close>

definition air_time_step ::
  "('ph, 'raw, 'k) common_values_scheme \<Rightarrow> 'raw PlayerInfo \<Rightarrow> 'ph Car \<Rightarrow> 'ph Car" where
  "air_time_step K player_info self =
     (if pi_dodge_timeout player_info = - 1
      then self\<lparr>air_time_since_jump := 0\<rparr>
      else self\<lparr>air_time_since_jump :=
                  DOUBLEJUMP_MAX_DELAY K - pi_dodge_timeout player_info\<rparr>)"

text \<open>Lines 305--306: the physics view and its inverted copy.\<close>

definition physics_step ::
  "('ph, 'raw, 'k) common_values_scheme \<Rightarrow> 'raw PlayerInfo \<Rightarrow> 'ph Car \<Rightarrow> 'ph Car" where
  "physics_step K player_info self =
     (let self = self\<lparr>physics :=
                        PhysicsObject_update K (physics self) (pi_physics player_info)\<rparr>
      in self\<lparr>inverted_physics_cache := Some (PhysicsObject_inverted K (physics self))\<rparr>)"

definition update ::
  "('ph, 'raw, 'k) common_values_scheme \<Rightarrow> 'ph Car \<Rightarrow> 'raw PlayerInfo \<Rightarrow> int \<Rightarrow>
     ExtraPlayerInfo option \<Rightarrow> 'ph Car" where
  "update K self player_info game_tick extra_player_info =
     (let ticks_elapsed = game_tick - cur_tick self;
          self = self\<lparr>cur_tick := game_tick\<rparr>;
          time_elapsed = TICK_TIME K * of_int ticks_elapsed;
          self = self\<lparr>game_seconds := game_seconds self + time_elapsed\<rparr>;
          self = count_ball_touch K player_info ticks_elapsed self;
          self = self\<lparr>demo_respawn_timer :=
                        (if pi_demolished_timeout player_info = - 1 then 0
                         else pi_demolished_timeout player_info)\<rparr>;
          self = supersonic_step player_info time_elapsed self;
          self = self\<lparr>boost_amount := pi_boost player_info / 100\<rparr>;
          self = boost_step K player_info time_elapsed self;
          self = handbrake_step K player_info time_elapsed self;
          self = copy_jump_flags player_info self;
          self = jump_time_step K ticks_elapsed self;
          self = air_time_step K player_info self;
          self = air_state_step K player_info self;
          self = physics_step K player_info self;
          self = apply_extra_player_info extra_player_info self
      in self\<lparr>prev_air_state := pi_air_state player_info\<rparr>)"

text \<open>
  The body of \<open>update\<close> has no \<open>raise\<close>, no \<open>assert\<close> and no \<open>return\<close>, and with exact
  arithmetic none of its operations raises: every call runs to the last statement. As a
  value of the result type with errors, the outcome of a call is therefore always the
  normal return of the updated state.
\<close>

datatype exception = IndexError

definition update_call ::
  "('ph, 'raw, 'k) common_values_scheme \<Rightarrow> 'ph Car \<Rightarrow> 'raw PlayerInfo \<Rightarrow> int \<Rightarrow>
     ExtraPlayerInfo option \<Rightarrow> exception + 'ph Car" where
  "update_call K self player_info game_tick extra_player_info =
     Inr (update K self player_info game_tick extra_player_info)"

text \<open>
  A caller applies \<open>update\<close> once per telemetry sample; a run of such calls is a list of
  the arguments of each call, applied from left to right.
\<close>

type_synonym 'raw update_args = "'raw PlayerInfo \<times> int \<times> ExtraPlayerInfo option"

fun updates ::
  "('ph, 'raw, 'k) common_values_scheme \<Rightarrow> 'ph Car \<Rightarrow> 'raw update_args list \<Rightarrow> 'ph Car" where
  "updates K self [] = self"
| "updates K self ((player_info, game_tick, extra_player_info) # rest) =
     updates K (update K self player_info game_tick extra_player_info) rest"

subsection \<open>\<open>Car.detect_hitbox\<close>\<close>

definition detect_hitbox ::
  "('ph, 'raw, 'k) common_values_scheme \<Rightarrow> BoxShape \<Rightarrow> real \<times> real \<times> real \<Rightarrow> hitbox" where
  "detect_hitbox K hitbox_shape hitbox_offset =
     (if compare_hitbox_shape K hitbox_shape 118.00738 84.19941 36.159073 then OCTANE
      else if compare_hitbox_shape K hitbox_shape 127.92678 83.27995 31.3 then DOMINUS
      else if compare_hitbox_shape K hitbox_shape 128.81978 84.670364 29.394402 then PLANK
      else if compare_hitbox_shape K hitbox_shape 131.49236 80.521 30.3 then BREAKOUT
      else if compare_hitbox_shape K hitbox_shape 127.01919 82.18787 34.159073 then HYBRID
      else if compare_hitbox_shape K hitbox_shape 120.72023 76.71031 41.659073 then MERC
      else OCTANE)"

text \<open>
  The classifier as the specification words it: the known categories with their reference
  dimensions, in their fixed order; the result is the category of the first reference
  that matches, and the default category \<open>OCTANE\<close> when none does.
\<close>

definition known_hitboxes :: "(hitbox \<times> real \<times> real \<times> real) list" where
  "known_hitboxes =
     [(OCTANE, 118.00738, 84.19941, 36.159073),
      (DOMINUS, 127.92678, 83.27995, 31.3),
      (PLANK, 128.81978, 84.670364, 29.394402),
      (BREAKOUT, 131.49236, 80.521, 30.3),
      (HYBRID, 127.01919, 82.18787, 34.159073),
      (MERC, 120.72023, 76.71031, 41.659073)]"

definition first_matching_hitbox ::
  "('ph, 'raw, 'k) common_values_scheme \<Rightarrow> BoxShape \<Rightarrow> hitbox" where
  "first_matching_hitbox K hitbox_shape =
     (case find (\<lambda>(category, l, w, h). compare_hitbox_shape K hitbox_shape l w h)
             known_hitboxes of
        Some (category, l, w, h) \<Rightarrow> category
      | None \<Rightarrow> OCTANE)"

subsection \<open>\<open>Car.create_compat_car\<close>\<close>

text \<open>
  \<open>rlbot.flat.GamePacket\<close>, restricted to what \<open>create_compat_car\<close> reads: the players and,
  from \<open>match_info\<close>, the elapsed seconds and the frame number.
\<close>

record 'raw GamePacket =
  gp_players :: "'raw PlayerInfo list"
  gp_seconds_elapsed :: real
  gp_frame_num :: int

text \<open>
  \<open>packet.players[player_index]\<close>: the subscript of a Python list. An index from
  \<open>-len\<close> up to \<open>-1\<close> addresses the list from its end, and an index outside
  \<open>-len .. len - 1\<close> raises \<open>IndexError\<close>.
\<close>

definition py_index :: "'a list \<Rightarrow> int \<Rightarrow> exception + 'a" where
  "py_index xs i =
     (if 0 \<le> i \<and> i < int (length xs) then Inr (xs ! nat i)
      else if - int (length xs) \<le> i \<and> i < 0 then Inr (xs ! nat (int (length xs) + i))
      else Inl IndexError)"

text \<open>
  The fields are listed in the order of the assignments of the source. The argument
  \<open>action_tick_duration\<close> is not used by the source. The cache of the inverted physics is
  not assigned and keeps the value \<open>None\<close> of the default initialiser.
\<close>

definition create_compat_car ::
  "('ph, 'raw, 'k) common_values_scheme \<Rightarrow> 'raw GamePacket \<Rightarrow> int \<Rightarrow> int \<Rightarrow>
     exception + 'ph Car" where
  "create_compat_car K packet player_index action_tick_duration =
     (case py_index (gp_players packet) player_index of
        Inl e \<Rightarrow> Inl e
      | Inr player_info \<Rightarrow>
          Inr \<lparr>team_num = (if pi_team player_info = 0 then BLUE_TEAM K else ORANGE_TEAM K),
               hitbox_type = detect_hitbox K (pi_hitbox player_info)
                               (pi_hitbox_offset player_info),
               ball_touches = 0,
               bump_victim_id = None,
               demo_respawn_timer = 0,
               wheels_with_contact =
                 (let v = (pi_air_state player_info = OnGround) in (v, v, v, v)),
               supersonic_time = 0,
               boost_amount = pi_boost player_info / 100,
               boost_active_time = 0,
               handbrake = 0,
               is_jumping = False,
               has_jumped = pi_has_jumped player_info,
               is_holding_jump = pi_last_input_jump player_info,
               jump_time = 0,
               has_flipped = pi_has_dodged player_info,
               has_double_jumped = pi_has_double_jumped player_info,
               air_time_since_jump =
                 (if pi_dodge_timeout player_info = - 1 then 0
                  else DOUBLEJUMP_MAX_DELAY K - pi_dodge_timeout player_info),
               flip_time = pi_dodge_elapsed player_info,
               flip_torque =
                 (- snd (pi_dodge_dir player_info), fst (pi_dodge_dir player_info), 0),
               is_autoflipping = False,
               autoflip_timer = 0,
               autoflip_direction = 0,
               physics = PhysicsObject_create_compat K,
               inverted_physics_cache = None,
               prev_air_state = pi_air_state player_info,
               game_seconds = gp_seconds_elapsed packet,
               cur_tick = gp_frame_num packet\<rparr>)"

subsection \<open>Example data\<close>

text \<open>
  Modelled from the spec: the comparison of \<open>compare_hitbox_shape\<close> (module \<open>utils\<close>, not
  among the sources), as a match within a tolerance on all three dimensions.
\<close>

definition within_tolerance :: "real \<Rightarrow> BoxShape \<Rightarrow> real \<Rightarrow> real \<Rightarrow> real \<Rightarrow> bool" where
  "within_tolerance tol shape l w h \<longleftrightarrow>
     \<bar>shape_length shape - l\<bar> \<le> tol \<and> \<bar>shape_width shape - w\<bar> \<le> tol
       \<and> \<bar>shape_height shape - h\<bar> \<le> tol"

text \<open>
  Modelled from the spec: one choice of the parameters of \<open>common_values\<close>, on which the
  examples below are evaluated. The tick duration of 1/120 s is that of the scenarios of
  the specification; 0.1 s and 1.25 s are the values that the comments of \<open>car.py\<close> give
  for the minimum boost time and the maximum double-jump delay. The physics view is
  trivial.
\<close>

definition rl_values :: "(unit, unit) common_values" where
  "rl_values =
     \<lparr>BLUE_TEAM = 0, ORANGE_TEAM = 1,
      TICK_TIME = 1 / 120, TICKS_PER_SECOND = 120,
      MIN_BOOST_TIME = 1 / 10,
      POWERSLIDE_RISE_RATE = 5, POWERSLIDE_FALL_RATE = 2,
      DOUBLEJUMP_MAX_DELAY = 5 / 4,
      compare_hitbox_shape = within_tolerance (1 / 1000),
      PhysicsObject_create_compat = (),
      PhysicsObject_update = (\<lambda>ph raw. ()),
      PhysicsObject_inverted = (\<lambda>ph. ())\<rparr>"

text \<open>A sample of a car at rest on the ground, with the Octane hitbox and no touch.\<close>

definition ground_sample :: "unit PlayerInfo" where
  "ground_sample =
     \<lparr>pi_team = 0,
      pi_hitbox = \<lparr>shape_length = 118.00738, shape_width = 84.19941,
                   shape_height = 36.159073\<rparr>,
      pi_hitbox_offset = (13.87566, 0, 20.754988),
      pi_air_state = OnGround,
      pi_boost = 50,
      pi_last_input_jump = False,
      pi_last_input_boost = False,
      pi_last_input_handbrake = False,
      pi_has_jumped = False,
      pi_has_double_jumped = False,
      pi_has_dodged = False,
      pi_dodge_elapsed = 0,
      pi_dodge_timeout = - 1,
      pi_dodge_dir = (0, 0),
      pi_demolished_timeout = - 1,
      pi_is_supersonic = False,
      pi_latest_touch = None,
      pi_physics = ()\<rparr>"

text \<open>The packet of frame 1200, ten seconds into the match, with that one player.\<close>

definition first_packet :: "unit GamePacket" where
  "first_packet =
     \<lparr>gp_players = [ground_sample], gp_seconds_elapsed = 10, gp_frame_num = 1200\<rparr>"

text \<open>The car that \<open>create_compat_car\<close> builds from this packet (lemma \<open>attached_car\<close>).\<close>

definition ground_car :: "unit Car" where
  "ground_car =
     \<lparr>team_num = 0, hitbox_type = OCTANE, ball_touches = 0, bump_victim_id = None,
      demo_respawn_timer = 0, wheels_with_contact = (True, True, True, True),
      supersonic_time = 0, boost_amount = 1 / 2, boost_active_time = 0, handbrake = 0,
      is_jumping = False, has_jumped = False, is_holding_jump = False, jump_time = 0,
      has_flipped = False, has_double_jumped = False, air_time_since_jump = 0,
      flip_time = 0, flip_torque = (0, 0, 0), is_autoflipping = False,
      autoflip_timer = 0, autoflip_direction = 0, physics = (),
      inverted_physics_cache = None, prev_air_state = OnGround, game_seconds = 10,
      cur_tick = 1200\<rparr>"

text \<open>An override record with no field present.\<close>

definition no_extra :: ExtraPlayerInfo where
  "no_extra =
     \<lparr>x_wheels_with_contact = None, x_handbrake = None, x_ball_touches = None,
      x_car_contact_id = None, x_car_contact_cooldown_timer = None,
      x_is_autoflipping = None, x_autoflip_timer = None, x_autoflip_direction = None\<rparr>"

definition supersonic_sample :: "unit PlayerInfo" where
  "supersonic_sample = ground_sample\<lparr>pi_is_supersonic := True\<rparr>"

definition boost_sample :: "unit PlayerInfo" where
  "boost_sample = ground_sample\<lparr>pi_last_input_boost := True\<rparr>"

definition handbrake_sample :: "unit PlayerInfo" where
  "handbrake_sample = ground_sample\<lparr>pi_last_input_handbrake := True\<rparr>"

definition handbrake_run :: "unit update_args list" where
  "handbrake_run =
     [(handbrake_sample, 1201, None), (handbrake_sample, 1321, None),
      (ground_sample, 1322, None)]"

definition dominus_shape :: BoxShape where
  "dominus_shape = \<lparr>shape_length = 127.92678, shape_width = 83.27995, shape_height = 31.3\<rparr>"

definition unknown_shape :: BoxShape where
  "unknown_shape = \<lparr>shape_length = 100, shape_width = 50, shape_height = 25\<rparr>"

text \<open>
  A sample of the first tick of a jump, a sample in the air with a running dodge timeout,
  and a sample on the ground that still reports \<open>has_jumped\<close>.
\<close>

definition jump_sample :: "unit PlayerInfo" where
  "jump_sample =
     ground_sample\<lparr>pi_air_state := Jumping, pi_last_input_jump := True,
                    pi_has_jumped := True\<rparr>"

definition air_sample :: "unit PlayerInfo" where
  "air_sample =
     ground_sample\<lparr>pi_air_state := InAir, pi_has_jumped := True, pi_dodge_timeout := 1\<rparr>"

definition landed_sample :: "unit PlayerInfo" where
  "landed_sample = ground_sample\<lparr>pi_has_jumped := True\<rparr>"

text \<open>
  Samples that report a ball touch: one stamped with the game time of tick 1201, one
  stamped two ticks later than that.
\<close>

definition touch_sample :: "unit PlayerInfo" where
  "touch_sample = ground_sample\<lparr>pi_latest_touch := Some (10 + 1 / 120)\<rparr>"

definition early_touch_sample :: "unit PlayerInfo" where
  "early_touch_sample = ground_sample\<lparr>pi_latest_touch := Some (10 + 3 / 120)\<rparr>"

text \<open>Cars that differ from the attached car in a few fields.\<close>

definition touched_car :: "unit Car" where
  "touched_car = ground_car\<lparr>ball_touches := 2\<rparr>"

definition jumping_car :: "unit Car" where
  "jumping_car =
     ground_car\<lparr>is_jumping := True, has_jumped := True, is_holding_jump := True,
                 prev_air_state := Jumping, game_seconds := 10 + 1 / 120,
                 cur_tick := 1201\<rparr>"

definition bumped_car :: "unit Car" where
  "bumped_car = ground_car\<lparr>bump_victim_id := Some 3\<rparr>"

text \<open>Override records with some fields present.\<close>

definition zero_touches :: ExtraPlayerInfo where
  "zero_touches = no_extra\<lparr>x_ball_touches := Some 0\<rparr>"

definition all_wheels :: ExtraPlayerInfo where
  "all_wheels = no_extra\<lparr>x_wheels_with_contact := Some (True, True, True, True)\<rparr>"

definition bump_over :: ExtraPlayerInfo where
  "bump_over =
     no_extra\<lparr>x_handbrake := Some (1 / 2), x_car_contact_id := Some 5,
               x_car_contact_cooldown_timer := Some 0\<rparr>"

definition bump_active :: ExtraPlayerInfo where
  "bump_active =
     no_extra\<lparr>x_ball_touches := Some 7, x_car_contact_id := Some 5,
               x_car_contact_cooldown_timer := Some (3 / 10)\<rparr>"

text \<open>A jump at tick 1201 followed by a sample on the ground at tick 1202.\<close>

definition rejump_run :: "unit update_args list" where
  "rejump_run = [(jump_sample, 1201, None), (landed_sample, 1202, None)]"

section \<open>Properties\<close>

subsection \<open>Each block as one record update\<close>

lemma count_ball_touch_eq:
  "count_ball_touch K p e self =
     self\<lparr>ball_touches := ball_touches self +
       (case pi_latest_touch p of
          None \<Rightarrow> 0
        | Some ts \<Rightarrow>
            if py_round ((game_seconds self - ts) * TICKS_PER_SECOND K) < e then 1 else 0)\<rparr>"
  by (simp add: count_ball_touch_def Let_def split: option.split)

lemma supersonic_step_eq:
  "supersonic_step p te self =
     self\<lparr>supersonic_time := (if pi_is_supersonic p then supersonic_time self + te else 0)\<rparr>"
  by (simp add: supersonic_step_def)

lemma boost_step_eq:
  "boost_step K p te self =
     self\<lparr>boost_active_time :=
       (if 0 < boost_active_time self
        then (if \<not> pi_last_input_boost p \<and> MIN_BOOST_TIME K \<le> boost_active_time self
              then 0 else boost_active_time self + te)
        else (if pi_last_input_boost p then te else boost_active_time self))\<rparr>"
  by (simp add: boost_step_def)

lemma handbrake_step_eq:
  "handbrake_step K p te self =
     self\<lparr>handbrake :=
       min 1 (max 0 (if pi_last_input_handbrake p
                     then handbrake self + POWERSLIDE_RISE_RATE K * te
                     else handbrake self - POWERSLIDE_FALL_RATE K * te))\<rparr>"
  by (simp add: handbrake_step_def Let_def)

lemma jump_time_step_eq:
  "jump_time_step K e self =
     self\<lparr>jump_time :=
       (if has_jumped self \<or> is_jumping self
        then jump_time self + TICK_TIME K * of_int e else jump_time self)\<rparr>"
  by (simp add: jump_time_step_def)

lemma air_time_step_eq:
  "air_time_step K p self =
     self\<lparr>air_time_since_jump :=
       (if pi_dodge_timeout p = - 1 then 0
        else DOUBLEJUMP_MAX_DELAY K - pi_dodge_timeout p)\<rparr>"
  by (simp add: air_time_step_def)

lemma air_state_step_eq:
  "air_state_step K p self =
     self\<lparr>wheels_with_contact :=
            (let v = (case pi_air_state p of
                        OnGround \<Rightarrow> True
                      | Jumping \<Rightarrow>
                          (if prev_air_state self = OnGround then 0 else jump_time self)
                            \<le> 6 * TICK_TIME K
                      | _ \<Rightarrow> False)
             in (v, v, v, v)),
          is_jumping := (pi_air_state p = Jumping),
          jump_time :=
            (if pi_air_state p = Jumping \<and> prev_air_state self = OnGround then 0
             else jump_time self),
          air_time_since_jump :=
            (if pi_air_state p = OnGround then 0 else air_time_since_jump self)\<rparr>"
  by (cases "pi_air_state p") (simp_all add: air_state_step_def set_on_ground_def Let_def)

lemma apply_extra_player_info_None: "apply_extra_player_info None self = self"
  by (simp add: apply_extra_player_info_def)

lemma override_wheels_with_contact:
  "(case v of Some w \<Rightarrow> self\<lparr>wheels_with_contact := w\<rparr> | None \<Rightarrow> self) =
     self\<lparr>wheels_with_contact := (case v of Some w \<Rightarrow> w | None \<Rightarrow> wheels_with_contact self)\<rparr>"
  by (cases v) simp_all

lemma override_handbrake:
  "(case v of Some h \<Rightarrow> self\<lparr>handbrake := h\<rparr> | None \<Rightarrow> self) =
     self\<lparr>handbrake := (case v of Some h \<Rightarrow> h | None \<Rightarrow> handbrake self)\<rparr>"
  by (cases v) simp_all

lemma override_ball_touches:
  "(case v of Some n \<Rightarrow> self\<lparr>ball_touches := n\<rparr> | None \<Rightarrow> self) =
     self\<lparr>ball_touches := (case v of Some n \<Rightarrow> n | None \<Rightarrow> ball_touches self)\<rparr>"
  by (cases v) simp_all

lemma override_bump_victim_id:
  "(case v of
      None \<Rightarrow> self
    | Some victim \<Rightarrow>
        (case c of
           None \<Rightarrow> self
         | Some cooldown \<Rightarrow>
             self\<lparr>bump_victim_id := (if 0 < cooldown then Some victim else None)\<rparr>)) =
     self\<lparr>bump_victim_id :=
            (case v of
               None \<Rightarrow> bump_victim_id self
             | Some victim \<Rightarrow>
                 (case c of
                    None \<Rightarrow> bump_victim_id self
                  | Some cooldown \<Rightarrow> if (0::real) < cooldown then Some victim else None))\<rparr>"
  by (cases v; cases c) simp_all

lemma override_is_autoflipping:
  "(case v of Some b \<Rightarrow> self\<lparr>is_autoflipping := b\<rparr> | None \<Rightarrow> self) =
     self\<lparr>is_autoflipping := (case v of Some b \<Rightarrow> b | None \<Rightarrow> is_autoflipping self)\<rparr>"
  by (cases v) simp_all

lemma override_autoflip_timer:
  "(case v of Some t \<Rightarrow> self\<lparr>autoflip_timer := t\<rparr> | None \<Rightarrow> self) =
     self\<lparr>autoflip_timer := (case v of Some t \<Rightarrow> t | None \<Rightarrow> autoflip_timer self)\<rparr>"
  by (cases v) simp_all

lemma override_autoflip_direction:
  "(case v of Some d \<Rightarrow> self\<lparr>autoflip_direction := d\<rparr> | None \<Rightarrow> self) =
     self\<lparr>autoflip_direction :=
            (case v of Some d \<Rightarrow> d | None \<Rightarrow> autoflip_direction self)\<rparr>"
  by (cases v) simp_all

lemmas override_field =
  override_wheels_with_contact override_handbrake override_ball_touches
  override_bump_victim_id override_is_autoflipping override_autoflip_timer
  override_autoflip_direction

lemma apply_extra_player_info_Some:
  "apply_extra_player_info (Some x) self =
     self\<lparr>wheels_with_contact :=
            (case x_wheels_with_contact x of Some w \<Rightarrow> w | None \<Rightarrow> wheels_with_contact self),
          handbrake := (case x_handbrake x of Some h \<Rightarrow> h | None \<Rightarrow> handbrake self),
          ball_touches := (case x_ball_touches x of Some n \<Rightarrow> n | None \<Rightarrow> ball_touches self),
          bump_victim_id :=
            (case x_car_contact_id x of
               None \<Rightarrow> bump_victim_id self
             | Some victim \<Rightarrow>
                 (case x_car_contact_cooldown_timer x of
                    None \<Rightarrow> bump_victim_id self
                  | Some cooldown \<Rightarrow> if 0 < cooldown then Some victim else None)),
          is_autoflipping :=
            (case x_is_autoflipping x of Some b \<Rightarrow> b | None \<Rightarrow> is_autoflipping self),
          autoflip_timer :=
            (case x_autoflip_timer x of Some t \<Rightarrow> t | None \<Rightarrow> autoflip_timer self),
          autoflip_direction :=
            (case x_autoflip_direction x of Some d \<Rightarrow> d | None \<Rightarrow> autoflip_direction self)\<rparr>"
  by (simp add: apply_extra_player_info_def Let_def override_field cong: option.case_cong)

lemma apply_extra_player_info_prev_air_state:
  "apply_extra_player_info e (self\<lparr>prev_air_state := a\<rparr>) =
     (apply_extra_player_info e self)\<lparr>prev_air_state := a\<rparr>"
  by (cases e)
    (simp_all add: apply_extra_player_info_None apply_extra_player_info_Some
       cong: option.case_cong)

subsection \<open>Reading a field after a block\<close>

text \<open>
  For each block, the value of the fields that the properties below are about, in terms
  of the state before the block.
\<close>

lemma count_ball_touch_fields:
  "ball_touches (count_ball_touch K p n self) =
     ball_touches self +
       (case pi_latest_touch p of
          None \<Rightarrow> 0
        | Some ts \<Rightarrow>
            if py_round ((game_seconds self - ts) * TICKS_PER_SECOND K) < n then 1 else 0)"
  "cur_tick (count_ball_touch K p n self) = cur_tick self"
  "game_seconds (count_ball_touch K p n self) = game_seconds self"
  "prev_air_state (count_ball_touch K p n self) = prev_air_state self"
  "supersonic_time (count_ball_touch K p n self) = supersonic_time self"
  "boost_active_time (count_ball_touch K p n self) = boost_active_time self"
  "handbrake (count_ball_touch K p n self) = handbrake self"
  "has_jumped (count_ball_touch K p n self) = has_jumped self"
  "is_jumping (count_ball_touch K p n self) = is_jumping self"
  "jump_time (count_ball_touch K p n self) = jump_time self"
  "air_time_since_jump (count_ball_touch K p n self) = air_time_since_jump self"
  "wheels_with_contact (count_ball_touch K p n self) = wheels_with_contact self"
  by (simp_all add: count_ball_touch_eq cong: option.case_cong)

lemma supersonic_step_fields:
  "supersonic_time (supersonic_step p te self) =
     (if pi_is_supersonic p then supersonic_time self + te else 0)"
  "cur_tick (supersonic_step p te self) = cur_tick self"
  "game_seconds (supersonic_step p te self) = game_seconds self"
  "prev_air_state (supersonic_step p te self) = prev_air_state self"
  "ball_touches (supersonic_step p te self) = ball_touches self"
  "boost_active_time (supersonic_step p te self) = boost_active_time self"
  "handbrake (supersonic_step p te self) = handbrake self"
  "has_jumped (supersonic_step p te self) = has_jumped self"
  "is_jumping (supersonic_step p te self) = is_jumping self"
  "jump_time (supersonic_step p te self) = jump_time self"
  "air_time_since_jump (supersonic_step p te self) = air_time_since_jump self"
  "wheels_with_contact (supersonic_step p te self) = wheels_with_contact self"
  by (simp_all add: supersonic_step_eq)

lemma boost_step_fields:
  "boost_active_time (boost_step K p te self) =
     (if 0 < boost_active_time self
      then (if \<not> pi_last_input_boost p \<and> MIN_BOOST_TIME K \<le> boost_active_time self
            then 0 else boost_active_time self + te)
      else (if pi_last_input_boost p then te else boost_active_time self))"
  "cur_tick (boost_step K p te self) = cur_tick self"
  "game_seconds (boost_step K p te self) = game_seconds self"
  "prev_air_state (boost_step K p te self) = prev_air_state self"
  "ball_touches (boost_step K p te self) = ball_touches self"
  "supersonic_time (boost_step K p te self) = supersonic_time self"
  "handbrake (boost_step K p te self) = handbrake self"
  "has_jumped (boost_step K p te self) = has_jumped self"
  "is_jumping (boost_step K p te self) = is_jumping self"
  "jump_time (boost_step K p te self) = jump_time self"
  "air_time_since_jump (boost_step K p te self) = air_time_since_jump self"
  "wheels_with_contact (boost_step K p te self) = wheels_with_contact self"
  by (simp_all add: boost_step_eq)

lemma handbrake_step_fields:
  "handbrake (handbrake_step K p te self) =
     min 1 (max 0 (if pi_last_input_handbrake p
                   then handbrake self + POWERSLIDE_RISE_RATE K * te
                   else handbrake self - POWERSLIDE_FALL_RATE K * te))"
  "cur_tick (handbrake_step K p te self) = cur_tick self"
  "game_seconds (handbrake_step K p te self) = game_seconds self"
  "prev_air_state (handbrake_step K p te self) = prev_air_state self"
  "ball_touches (handbrake_step K p te self) = ball_touches self"
  "supersonic_time (handbrake_step K p te self) = supersonic_time self"
  "boost_active_time (handbrake_step K p te self) = boost_active_time self"
  "has_jumped (handbrake_step K p te self) = has_jumped self"
  "is_jumping (handbrake_step K p te self) = is_jumping self"
  "jump_time (handbrake_step K p te self) = jump_time self"
  "air_time_since_jump (handbrake_step K p te self) = air_time_since_jump self"
  "wheels_with_contact (handbrake_step K p te self) = wheels_with_contact self"
  by (simp_all add: handbrake_step_eq)

lemma copy_jump_flags_fields:
  "has_jumped (copy_jump_flags p self) =
     pi_has_jumped p"
  "cur_tick (copy_jump_flags p self) = cur_tick self"
  "game_seconds (copy_jump_flags p self) = game_seconds self"
  "prev_air_state (copy_jump_flags p self) = prev_air_state self"
  "ball_touches (copy_jump_flags p self) = ball_touches self"
  "supersonic_time (copy_jump_flags p self) = supersonic_time self"
  "boost_active_time (copy_jump_flags p self) = boost_active_time self"
  "handbrake (copy_jump_flags p self) = handbrake self"
  "is_jumping (copy_jump_flags p self) = is_jumping self"
  "jump_time (copy_jump_flags p self) = jump_time self"
  "air_time_since_jump (copy_jump_flags p self) = air_time_since_jump self"
  "wheels_with_contact (copy_jump_flags p self) = wheels_with_contact self"
  by (simp_all add: copy_jump_flags_def Let_def)

lemma jump_time_step_fields:
  "jump_time (jump_time_step K n self) =
     (if has_jumped self \<or> is_jumping self
      then jump_time self + TICK_TIME K * of_int n else jump_time self)"
  "cur_tick (jump_time_step K n self) = cur_tick self"
  "game_seconds (jump_time_step K n self) = game_seconds self"
  "prev_air_state (jump_time_step K n self) = prev_air_state self"
  "ball_touches (jump_time_step K n self) = ball_touches self"
  "supersonic_time (jump_time_step K n self) = supersonic_time self"
  "boost_active_time (jump_time_step K n self) = boost_active_time self"
  "handbrake (jump_time_step K n self) = handbrake self"
  "has_jumped (jump_time_step K n self) = has_jumped self"
  "is_jumping (jump_time_step K n self) = is_jumping self"
  "air_time_since_jump (jump_time_step K n self) = air_time_since_jump self"
  "wheels_with_contact (jump_time_step K n self) = wheels_with_contact self"
  by (simp_all add: jump_time_step_eq)

lemma air_time_step_fields:
  "air_time_since_jump (air_time_step K p self) =
     (if pi_dodge_timeout p = - 1 then 0
      else DOUBLEJUMP_MAX_DELAY K - pi_dodge_timeout p)"
  "cur_tick (air_time_step K p self) = cur_tick self"
  "game_seconds (air_time_step K p self) = game_seconds self"
  "prev_air_state (air_time_step K p self) = prev_air_state self"
  "ball_touches (air_time_step K p self) = ball_touches self"
  "supersonic_time (air_time_step K p self) = supersonic_time self"
  "boost_active_time (air_time_step K p self) = boost_active_time self"
  "handbrake (air_time_step K p self) = handbrake self"
  "has_jumped (air_time_step K p self) = has_jumped self"
  "is_jumping (air_time_step K p self) = is_jumping self"
  "jump_time (air_time_step K p self) = jump_time self"
  "wheels_with_contact (air_time_step K p self) = wheels_with_contact self"
  by (simp_all add: air_time_step_eq)

lemma air_state_step_fields:
  "is_jumping (air_state_step K p self) =
     (pi_air_state p = Jumping)"
  "jump_time (air_state_step K p self) =
     (if pi_air_state p = Jumping \<and> prev_air_state self = OnGround then 0
      else jump_time self)"
  "air_time_since_jump (air_state_step K p self) =
     (if pi_air_state p = OnGround then 0 else air_time_since_jump self)"
  "wheels_with_contact (air_state_step K p self) =
     (let v = (case pi_air_state p of
                 OnGround \<Rightarrow> True
               | Jumping \<Rightarrow>
                   (if prev_air_state self = OnGround then 0 else jump_time self)
                     \<le> 6 * TICK_TIME K
               | _ \<Rightarrow> False)
      in (v, v, v, v))"
  "cur_tick (air_state_step K p self) = cur_tick self"
  "game_seconds (air_state_step K p self) = game_seconds self"
  "prev_air_state (air_state_step K p self) = prev_air_state self"
  "ball_touches (air_state_step K p self) = ball_touches self"
  "supersonic_time (air_state_step K p self) = supersonic_time self"
  "boost_active_time (air_state_step K p self) = boost_active_time self"
  "handbrake (air_state_step K p self) = handbrake self"
  "has_jumped (air_state_step K p self) = has_jumped self"
  by (simp_all add: air_state_step_eq)

lemma physics_step_fields:
  "cur_tick (physics_step K p self) = cur_tick self"
  "game_seconds (physics_step K p self) = game_seconds self"
  "prev_air_state (physics_step K p self) = prev_air_state self"
  "ball_touches (physics_step K p self) = ball_touches self"
  "supersonic_time (physics_step K p self) = supersonic_time self"
  "boost_active_time (physics_step K p self) = boost_active_time self"
  "handbrake (physics_step K p self) = handbrake self"
  "has_jumped (physics_step K p self) = has_jumped self"
  "is_jumping (physics_step K p self) = is_jumping self"
  "jump_time (physics_step K p self) = jump_time self"
  "air_time_since_jump (physics_step K p self) = air_time_since_jump self"
  "wheels_with_contact (physics_step K p self) = wheels_with_contact self"
  by (simp_all add: physics_step_def Let_def)

lemmas block_fields =
  count_ball_touch_fields supersonic_step_fields boost_step_fields handbrake_step_fields
  copy_jump_flags_fields jump_time_step_fields air_time_step_fields air_state_step_fields
  physics_step_fields

lemmas example_data =
  rl_values_def ground_sample_def ground_car_def first_packet_def no_extra_def
  within_tolerance_def supersonic_sample_def boost_sample_def handbrake_sample_def
  handbrake_run_def dominus_shape_def unknown_shape_def jump_sample_def air_sample_def
  landed_sample_def touch_sample_def early_touch_sample_def touched_car_def
  jumping_car_def bumped_car_def zero_touches_def all_wheels_def bump_over_def
  bump_active_def rejump_run_def

lemma update_Some:
  "update K self p t (Some x) = apply_extra_player_info (Some x) (update K self p t None)"
  unfolding update_def Let_def apply_extra_player_info_None
    apply_extra_player_info_prev_air_state
  by (rule refl)

lemma apply_extra_player_info_frame:
  "cur_tick (apply_extra_player_info e self) = cur_tick self"
  "game_seconds (apply_extra_player_info e self) = game_seconds self"
  "prev_air_state (apply_extra_player_info e self) = prev_air_state self"
  "supersonic_time (apply_extra_player_info e self) = supersonic_time self"
  "boost_active_time (apply_extra_player_info e self) = boost_active_time self"
  "jump_time (apply_extra_player_info e self) = jump_time self"
  "is_jumping (apply_extra_player_info e self) = is_jumping self"
  "has_jumped (apply_extra_player_info e self) = has_jumped self"
  "air_time_since_jump (apply_extra_player_info e self) = air_time_since_jump self"
  by (cases e; simp add: apply_extra_player_info_None apply_extra_player_info_Some)+

subsection \<open>What one call of \<open>update\<close> does to single fields\<close>

lemma update_cur_tick: "cur_tick (update K self p t e) = t"
  by (simp add: update_def Let_def block_fields apply_extra_player_info_frame)

lemma update_game_seconds:
  "game_seconds (update K self p t e) =
     game_seconds self + TICK_TIME K * of_int (t - cur_tick self)"
  by (simp add: update_def Let_def block_fields apply_extra_player_info_frame)

lemma update_prev_air_state: "prev_air_state (update K self p t e) = pi_air_state p"
  by (simp add: update_def Let_def)

lemma update_supersonic_time:
  "supersonic_time (update K self p t e) =
     (if pi_is_supersonic p
      then supersonic_time self + TICK_TIME K * of_int (t - cur_tick self) else 0)"
  by (simp add: update_def Let_def block_fields apply_extra_player_info_frame)

lemma update_boost_active_time:
  "boost_active_time (update K self p t e) =
     (if 0 < boost_active_time self
      then (if \<not> pi_last_input_boost p \<and> MIN_BOOST_TIME K \<le> boost_active_time self
            then 0
            else boost_active_time self + TICK_TIME K * of_int (t - cur_tick self))
      else (if pi_last_input_boost p then TICK_TIME K * of_int (t - cur_tick self)
            else boost_active_time self))"
  by (simp add: update_def Let_def block_fields apply_extra_player_info_frame)

lemma update_handbrake_None:
  "handbrake (update K self p t None) =
     min 1 (max 0 (if pi_last_input_handbrake p
                   then handbrake self
                        + POWERSLIDE_RISE_RATE K * (TICK_TIME K * of_int (t - cur_tick self))
                   else handbrake self
                        - POWERSLIDE_FALL_RATE K * (TICK_TIME K * of_int (t - cur_tick self))))"
  by (simp add: update_def Let_def block_fields apply_extra_player_info_None)

lemma update_jump_time:
  "jump_time (update K self p t e) =
     (if pi_air_state p = Jumping \<and> prev_air_state self = OnGround then 0
      else if pi_has_jumped p \<or> is_jumping self
           then jump_time self + TICK_TIME K * of_int (t - cur_tick self)
           else jump_time self)"
  by (simp add: update_def Let_def block_fields apply_extra_player_info_frame)

lemma update_is_jumping: "is_jumping (update K self p t e) = (pi_air_state p = Jumping)"
  by (simp add: update_def Let_def block_fields apply_extra_player_info_frame)

lemma update_air_time_since_jump:
  "air_time_since_jump (update K self p t e) =
     (if pi_air_state p = OnGround \<or> pi_dodge_timeout p = - 1 then 0
      else DOUBLEJUMP_MAX_DELAY K - pi_dodge_timeout p)"
  by (simp add: update_def Let_def block_fields apply_extra_player_info_frame)

lemma update_ball_touches_None:
  "ball_touches (update K self p t None) =
     ball_touches self +
       (case pi_latest_touch p of
          None \<Rightarrow> 0
        | Some ts \<Rightarrow>
            if py_round ((game_seconds self + TICK_TIME K * of_int (t - cur_tick self) - ts)
                          * TICKS_PER_SECOND K) < t - cur_tick self
            then 1 else 0)"
  by (simp add: update_def Let_def block_fields apply_extra_player_info_None
      cong: option.case_cong)

lemma update_wheels_None:
  "wheels_with_contact (update K self p t None) =
     (let v = (case pi_air_state p of
                 OnGround \<Rightarrow> True
               | Jumping \<Rightarrow> jump_time (update K self p t None) \<le> 6 * TICK_TIME K
               | _ \<Rightarrow> False)
      in (v, v, v, v))"
  unfolding update_jump_time
  by (cases "pi_air_state p")
    (simp_all add: update_def Let_def block_fields apply_extra_player_info_None)

lemma update_has_jumped: "has_jumped (update K self p t e) = pi_has_jumped p"
  by (simp add: update_def Let_def block_fields apply_extra_player_info_frame)

lemma on_ground_all_equal:
  "wheels_with_contact self = (v, v, v, v) \<Longrightarrow> on_ground self = v"
  by (cases v) (simp_all add: on_ground_def)

lemma update_on_ground_None:
  "on_ground (update K self p t None) =
     (case pi_air_state p of
        OnGround \<Rightarrow> True
      | Jumping \<Rightarrow> jump_time (update K self p t None) \<le> 6 * TICK_TIME K
      | _ \<Rightarrow> False)"
  by (rule on_ground_all_equal) (simp add: update_wheels_None Let_def)

lemma update_ball_touches_keep:
  assumes "\<forall>extra. e = Some extra \<longrightarrow> x_ball_touches extra = None"
  shows "ball_touches (update K self p t e) = ball_touches (update K self p t None)"
proof (cases e)
  case None
  then show ?thesis by simp
next
  case (Some extra)
  with assms have "x_ball_touches extra = None" by simp
  with Some show ?thesis by (simp add: update_Some apply_extra_player_info_Some)
qed

subsection \<open>The supersonic timer\<close>

text \<open>
  Claim C6. After every call of \<open>update\<close>, with or without an override record, the
  supersonic timer is the old timer plus \<open>time_elapsed = TICK_TIME * ticks_elapsed\<close> when
  the sample reports supersonic, and exactly 0 when it does not. Hence, while the sample
  reports supersonic and the elapsed time is not negative, the timer does not decrease
  from one call to the next.
\<close>

theorem supersonic_time_update:
  "supersonic_time (update K self player_info game_tick extra_player_info) =
     (if pi_is_supersonic player_info
      then supersonic_time self + TICK_TIME K * of_int (game_tick - cur_tick self)
      else 0)
   \<and> (pi_is_supersonic player_info \<and> 0 \<le> TICK_TIME K * of_int (game_tick - cur_tick self)
        \<longrightarrow> supersonic_time self
              \<le> supersonic_time (update K self player_info game_tick extra_player_info))"
  by (simp add: update_supersonic_time)

theorem supersonic_time_update_witness:
  "supersonic_time (update rl_values ground_car supersonic_sample 1201 None) = 1 / 120
   \<and> supersonic_time ground_car
       \<le> supersonic_time (update rl_values ground_car supersonic_sample 1201 None)
   \<and> supersonic_time
        (update rl_values (ground_car\<lparr>supersonic_time := 1 / 2\<rparr>) ground_sample 1201 None) = 0"
  using supersonic_time_update [of rl_values ground_car supersonic_sample 1201 None]
    supersonic_time_update
      [of rl_values "ground_car\<lparr>supersonic_time := 1 / 2\<rparr>" ground_sample 1201 None]
  by (simp add: example_data)

subsection \<open>The boost-active timer\<close>

text \<open>
  Claim C4. After every call of \<open>update\<close>: if the boost-active timer was positive, the
  sample's boost input is off and the timer had reached \<open>MIN_BOOST_TIME\<close>, the timer is
  0; if it was positive otherwise, it has grown by \<open>time_elapsed\<close>; if it was 0 and the
  boost input is on, it is exactly \<open>time_elapsed\<close>.
\<close>

theorem boost_active_time_update:
  "(0 < boost_active_time self \<and> \<not> pi_last_input_boost player_info
      \<and> MIN_BOOST_TIME K \<le> boost_active_time self
     \<longrightarrow> boost_active_time (update K self player_info game_tick extra_player_info) = 0)
   \<and> (0 < boost_active_time self
        \<and> \<not> (\<not> pi_last_input_boost player_info
               \<and> MIN_BOOST_TIME K \<le> boost_active_time self)
     \<longrightarrow> boost_active_time (update K self player_info game_tick extra_player_info) =
           boost_active_time self + TICK_TIME K * of_int (game_tick - cur_tick self))
   \<and> (boost_active_time self = 0 \<and> pi_last_input_boost player_info
     \<longrightarrow> boost_active_time (update K self player_info game_tick extra_player_info) =
           TICK_TIME K * of_int (game_tick - cur_tick self))"
  by (simp add: update_boost_active_time)

theorem boost_active_time_update_witness:
  "boost_active_time
     (update rl_values (ground_car\<lparr>boost_active_time := 1 / 5\<rparr>) ground_sample 1201 None) = 0
   \<and> boost_active_time
       (update rl_values (ground_car\<lparr>boost_active_time := 1 / 20\<rparr>) ground_sample 1201 None)
       = 1 / 20 + 1 / 120
   \<and> boost_active_time
       (update rl_values (ground_car\<lparr>boost_active_time := 1 / 5\<rparr>) boost_sample 1201 None)
       = 1 / 5 + 1 / 120
   \<and> boost_active_time (update rl_values ground_car boost_sample 1201 None) = 1 / 120"
  using
    boost_active_time_update
      [of "ground_car\<lparr>boost_active_time := 1 / 5\<rparr>" ground_sample rl_values 1201 None]
    boost_active_time_update
      [of "ground_car\<lparr>boost_active_time := 1 / 20\<rparr>" ground_sample rl_values 1201 None]
    boost_active_time_update
      [of "ground_car\<lparr>boost_active_time := 1 / 5\<rparr>" boost_sample rl_values 1201 None]
    boost_active_time_update [of ground_car boost_sample rl_values 1201 None]
  by (simp add: example_data)

subsection \<open>The handbrake\<close>

lemma update_handbrake_bounds:
  "0 \<le> handbrake (update K self p t None) \<and> handbrake (update K self p t None) \<le> 1"
  by (simp add: update_handbrake_None)

lemma updates_handbrake_bounds:
  "0 \<le> handbrake self \<Longrightarrow> handbrake self \<le> 1 \<Longrightarrow>
   \<forall>(p, t, e) \<in> set steps. e = None \<Longrightarrow>
   0 \<le> handbrake (updates K self steps) \<and> handbrake (updates K self steps) \<le> 1"
proof (induction steps arbitrary: self)
  case Nil
  then show ?case by simp
next
  case (Cons step steps)
  obtain p t e where step: "step = (p, t, e)"
    by (cases step) auto
  with Cons.prems have e: "e = None" and rest: "\<forall>(p, t, e) \<in> set steps. e = None"
    by auto
  have "0 \<le> handbrake (updates K (update K self p t None) steps)
      \<and> handbrake (updates K (update K self p t None) steps) \<le> 1"
    using update_handbrake_bounds [of K self p t] rest by (intro Cons.IH) auto
  then show ?case by (simp add: step e)
qed

text \<open>
  Claim C7. Starting from a state whose handbrake value lies in \<open>[0, 1]\<close>, after each
  call of any run of \<open>update\<close> calls without override record the handbrake value lies
  in \<open>[0, 1]\<close>, whatever the handbrake inputs and the tick indices of the calls are (the
  bound does not depend on the tick deltas being positive). The states after each call
  are the states after the prefixes \<open>take n steps\<close> of the run.
\<close>

theorem handbrake_in_unit_interval:
  assumes "0 \<le> handbrake self" and "handbrake self \<le> 1"
    and "\<forall>(player_info, game_tick, extra_player_info) \<in> set steps.
           extra_player_info = None"
  shows "\<forall>n. 0 \<le> handbrake (updates K self (take n steps))
           \<and> handbrake (updates K self (take n steps)) \<le> 1"
proof
  fix n
  have "\<forall>(p, t, e) \<in> set (take n steps). e = None"
    using assms(3) by (auto dest: in_set_takeD)
  then show "0 \<le> handbrake (updates K self (take n steps))
      \<and> handbrake (updates K self (take n steps)) \<le> 1"
    using assms(1,2) by (rule updates_handbrake_bounds [rotated 2])
qed

theorem handbrake_in_unit_interval_witness:
  "0 \<le> handbrake ground_car \<and> handbrake ground_car \<le> 1
   \<and> list_all (\<lambda>(player_info, game_tick, extra_player_info). extra_player_info = None)
         handbrake_run
   \<and> 0 \<le> handbrake (updates rl_values ground_car handbrake_run)
   \<and> handbrake (updates rl_values ground_car handbrake_run) \<le> 1"
proof -
  have a: "0 \<le> handbrake ground_car" and b: "handbrake ground_car \<le> 1"
    by (simp_all add: ground_car_def)
  have c: "\<forall>(player_info, game_tick, extra_player_info) \<in> set handbrake_run.
             extra_player_info = None"
    by (simp add: handbrake_run_def)
  from handbrake_in_unit_interval [OF a b c, of rl_values]
  have "0 \<le> handbrake (updates rl_values ground_car (take 3 handbrake_run))
      \<and> handbrake (updates rl_values ground_car (take 3 handbrake_run)) \<le> 1"
    by (rule spec)
  moreover have "take 3 handbrake_run = handbrake_run"
    by (simp add: handbrake_run_def)
  ultimately show ?thesis using a b c by (simp add: list_all_iff)
qed

text \<open>
  The run of the example: five ticks of ramping up at tick 1201, a full second with the
  handbrake held, which the clamp stops at 1, and one tick of decay.
\<close>

lemma handbrake_run_value:
  "handbrake (updates rl_values ground_car handbrake_run) = 59 / 60"
  by (simp add: update_handbrake_None update_cur_tick example_data)

subsection \<open>The wheel contacts\<close>

text \<open>
  Claim C10. After every call of \<open>update\<close> in which no wheel-contact override is applied
  (there is no override record, or its wheel-contact field is absent), the four
  wheel-contact flags are equal: every case of the air-state match writes them through
  the setter of \<open>on_ground\<close>.
\<close>

theorem wheels_all_equal:
  assumes "\<forall>extra. extra_player_info = Some extra \<longrightarrow> x_wheels_with_contact extra = None"
  shows "\<exists>v. wheels_with_contact (update K self player_info game_tick extra_player_info)
              = (v, v, v, v)"
proof (cases extra_player_info)
  case None
  then show ?thesis by (simp add: update_wheels_None Let_def)
next
  case (Some extra)
  with assms have "x_wheels_with_contact extra = None" by simp
  with Some show ?thesis
    by (simp add: update_Some apply_extra_player_info_Some update_wheels_None Let_def)
qed

theorem wheels_all_equal_witness:
  "x_wheels_with_contact (no_extra\<lparr>x_handbrake := Some 1\<rparr>) = None
   \<and> (\<exists>v. wheels_with_contact
             (update rl_values ground_car ground_sample 1201
                (Some (no_extra\<lparr>x_handbrake := Some 1\<rparr>))) = (v, v, v, v))"
proof -
  have a: "\<forall>extra. Some (no_extra\<lparr>x_handbrake := Some 1\<rparr>) = Some extra
             \<longrightarrow> x_wheels_with_contact extra = None"
    by (simp add: no_extra_def)
  from wheels_all_equal [OF a] show ?thesis by (simp add: no_extra_def)
qed

subsection \<open>The hitbox classifier\<close>

text \<open>
  Claim C9. For every shape, \<open>detect_hitbox\<close> returns the category of the first known
  reference, in the fixed order, that \<open>compare_hitbox_shape\<close> accepts for the shape, and
  the default category \<open>OCTANE\<close> when it accepts none. The function is a static method:
  it reads no state and its result is a function of the shape alone (the offset is not
  used).
\<close>

theorem detect_hitbox_first_match:
  "detect_hitbox K hitbox_shape hitbox_offset = first_matching_hitbox K hitbox_shape"
  by (simp add: detect_hitbox_def first_matching_hitbox_def known_hitboxes_def)

theorem detect_hitbox_first_match_witness:
  "detect_hitbox rl_values dominus_shape (9, 0, 15.75) = DOMINUS
   \<and> first_matching_hitbox rl_values dominus_shape = DOMINUS
   \<and> detect_hitbox rl_values unknown_shape (0, 0, 0) = OCTANE"
  using detect_hitbox_first_match [of rl_values dominus_shape "(9, 0, 15.75)"]
    detect_hitbox_first_match [of rl_values unknown_shape "(0, 0, 0)"]
  by (simp add: first_matching_hitbox_def known_hitboxes_def example_data)

subsection \<open>Samples that are not newer than the last one\<close>

text \<open>
  Claim C1 says that \<open>update\<close> reports an error when the tick index is not larger than
  the recorded one. It does not: \<open>update\<close> never compares the two. At tick 1200, the
  tick of the attached car, the call returns normally; at tick 1199 it returns a state
  whose clock has gone back by one tick and whose supersonic timer is negative.
\<close>

theorem stale_sample_not_reported:
  "1200 - cur_tick ground_car \<le> 0
   \<and> \<not> isl (update_call rl_values ground_car ground_sample 1200 None)
   \<and> cur_tick (update rl_values ground_car supersonic_sample 1199 None) = 1199
   \<and> game_seconds (update rl_values ground_car supersonic_sample 1199 None) = 10 - 1 / 120
   \<and> supersonic_time (update rl_values ground_car supersonic_sample 1199 None) = - (1 / 120)"
  by (simp add: update_call_def update_cur_tick update_game_seconds update_supersonic_time
      example_data)

text \<open>
  Claim C1, amended. A call of \<open>update\<close> whose tick index is not larger than the recorded
  one (\<open>ticks_elapsed \<le> 0\<close>) is not rejected: \<open>update\<close> performs no check on the tick
  delta and returns normally. The returned state records the tick index of the call; its
  clock is the old clock plus \<open>TICK_TIME * ticks_elapsed\<close> and therefore, for a tick
  duration that is not negative, not later than the old clock; and it has taken over the
  sample: \<open>has_jumped\<close> is the sample's flag, \<open>is_jumping\<close> says whether the sample's air
  state is \<open>Jumping\<close>, and the recorded previous air state is the sample's.
\<close>

theorem stale_sample_absorbed:
  assumes "game_tick - cur_tick self \<le> 0" and "0 \<le> TICK_TIME K"
  shows "update_call K self player_info game_tick extra_player_info =
           Inr (update K self player_info game_tick extra_player_info)
         \<and> cur_tick (update K self player_info game_tick extra_player_info) = game_tick
         \<and> game_seconds (update K self player_info game_tick extra_player_info) =
             game_seconds self + TICK_TIME K * of_int (game_tick - cur_tick self)
         \<and> game_seconds (update K self player_info game_tick extra_player_info)
             \<le> game_seconds self
         \<and> has_jumped (update K self player_info game_tick extra_player_info) =
             pi_has_jumped player_info
         \<and> is_jumping (update K self player_info game_tick extra_player_info) =
             (pi_air_state player_info = Jumping)
         \<and> prev_air_state (update K self player_info game_tick extra_player_info) =
             pi_air_state player_info"
proof -
  from assms(1) have "(of_int (game_tick - cur_tick self) :: real) \<le> 0"
    by simp
  with assms(2) have "TICK_TIME K * of_int (game_tick - cur_tick self) \<le> 0"
    by (rule mult_nonneg_nonpos)
  then show ?thesis
    by (simp add: update_call_def update_cur_tick update_game_seconds update_has_jumped
        update_is_jumping update_prev_air_state)
qed

theorem stale_sample_absorbed_witness:
  "1199 - cur_tick ground_car \<le> 0 \<and> 0 \<le> TICK_TIME rl_values
   \<and> update_call rl_values ground_car jump_sample 1199 None =
       Inr (update rl_values ground_car jump_sample 1199 None)
   \<and> cur_tick (update rl_values ground_car jump_sample 1199 None) = 1199
   \<and> game_seconds (update rl_values ground_car jump_sample 1199 None) = 10 - 1 / 120
   \<and> game_seconds (update rl_values ground_car jump_sample 1199 None)
       \<le> game_seconds ground_car
   \<and> has_jumped (update rl_values ground_car jump_sample 1199 None)
   \<and> is_jumping (update rl_values ground_car jump_sample 1199 None)
   \<and> prev_air_state (update rl_values ground_car jump_sample 1199 None) = Jumping"
proof -
  have a: "1199 - cur_tick ground_car \<le> 0"
    by (simp add: ground_car_def)
  have b: "0 \<le> TICK_TIME rl_values"
    by (simp add: rl_values_def)
  from stale_sample_absorbed [OF a b, of jump_sample None] a b show ?thesis
    by (simp add: example_data)
qed

subsection \<open>On the ground while jumping\<close>

text \<open>
  The packet of the example yields the attached car, which \<open>ground_car\<close> spells out.
\<close>

lemma attached_car: "create_compat_car rl_values first_packet 0 8 = Inr ground_car"
  by (simp add: create_compat_car_def py_index_def detect_hitbox_def Let_def example_data)

text \<open>
  Claim C2 says that in every state reached by attaching and updating, \<open>on_ground\<close>
  implies that \<open>is_jumping\<close> is false and \<open>air_time_since_jump\<close> is 0. It fails in the
  first ticks of a jump: the case \<open>Jumping\<close> of the air-state match sets \<open>is_jumping\<close> and
  keeps \<open>on_ground\<close> true while \<open>jump_time \<le> 6 * TICK_TIME\<close>. The car attached on the
  ground and updated once with a jumping sample is on the ground and jumping.
\<close>

theorem on_ground_while_jumping:
  "create_compat_car rl_values first_packet 0 8 = Inr ground_car
   \<and> on_ground (update rl_values ground_car jump_sample 1201 None)
   \<and> is_jumping (update rl_values ground_car jump_sample 1201 None)"
proof -
  have "on_ground (update rl_values ground_car jump_sample 1201 None)
      \<and> is_jumping (update rl_values ground_car jump_sample 1201 None)"
    by (simp add: update_on_ground_None update_is_jumping update_jump_time
        example_data)
  with attached_car show ?thesis by simp
qed

text \<open>
  A wheel-contact override breaks the implication as well: it puts a car in the air on
  its wheels without touching \<open>air_time_since_jump\<close>.
\<close>

lemma on_ground_by_override_in_air:
  "on_ground (update rl_values jumping_car air_sample 1202 (Some all_wheels))
   \<and> air_time_since_jump (update rl_values jumping_car air_sample 1202 (Some all_wheels)) = 1 / 4"
  by (simp add: update_air_time_since_jump update_Some apply_extra_player_info_Some
      on_ground_def example_data)

text \<open>
  Claim C2, amended. After every call of \<open>update\<close> in which no wheel-contact override is
  applied: if the sample's air state is not \<open>Jumping\<close> and \<open>on_ground\<close> is true, then
  \<open>is_jumping\<close> is false and \<open>air_time_since_jump\<close> is 0; if the sample's air state is
  \<open>Jumping\<close>, then \<open>is_jumping\<close> is true, and \<open>on_ground\<close> is true exactly when
  \<open>jump_time \<le> 6 * TICK_TIME\<close>.
\<close>

theorem on_ground_outside_jump:
  assumes "\<forall>extra. extra_player_info = Some extra \<longrightarrow> x_wheels_with_contact extra = None"
  shows "(pi_air_state player_info \<noteq> Jumping
            \<and> on_ground (update K self player_info game_tick extra_player_info)
          \<longrightarrow> \<not> is_jumping (update K self player_info game_tick extra_player_info)
              \<and> air_time_since_jump (update K self player_info game_tick extra_player_info) = 0)
         \<and> (pi_air_state player_info = Jumping
          \<longrightarrow> is_jumping (update K self player_info game_tick extra_player_info)
              \<and> (on_ground (update K self player_info game_tick extra_player_info)
                   \<longleftrightarrow> jump_time (update K self player_info game_tick extra_player_info)
                         \<le> 6 * TICK_TIME K))"
proof -
  have w: "wheels_with_contact (update K self player_info game_tick extra_player_info) =
      wheels_with_contact (update K self player_info game_tick None)"
  proof (cases extra_player_info)
    case None
    then show ?thesis by simp
  next
    case (Some extra)
    with assms have "x_wheels_with_contact extra = None" by simp
    with Some show ?thesis by (simp add: update_Some apply_extra_player_info_Some)
  qed
  have g: "on_ground (update K self player_info game_tick extra_player_info) =
      on_ground (update K self player_info game_tick None)"
    by (simp add: on_ground_def w)
  have j: "jump_time (update K self player_info game_tick extra_player_info) =
      jump_time (update K self player_info game_tick None)"
    by (simp add: update_jump_time)
  show ?thesis
    unfolding g j update_on_ground_None
    by (cases "pi_air_state player_info")
      (simp_all add: update_is_jumping update_air_time_since_jump)
qed

theorem on_ground_outside_jump_witness:
  "on_ground (update rl_values ground_car ground_sample 1201 None)
   \<and> \<not> is_jumping (update rl_values ground_car ground_sample 1201 None)
   \<and> air_time_since_jump (update rl_values ground_car ground_sample 1201 None) = 0
   \<and> is_jumping (update rl_values ground_car jump_sample 1201 None)
   \<and> jump_time (update rl_values ground_car jump_sample 1201 None) \<le> 6 * TICK_TIME rl_values
   \<and> on_ground (update rl_values ground_car jump_sample 1201 None)"
proof -
  have a: "\<forall>extra. (None :: ExtraPlayerInfo option) = Some extra
             \<longrightarrow> x_wheels_with_contact extra = None"
    by simp
  have b: "on_ground (update rl_values ground_car ground_sample 1201 None)"
    by (simp add: update_on_ground_None example_data)
  have c: "jump_time (update rl_values ground_car jump_sample 1201 None)
      \<le> 6 * TICK_TIME rl_values"
    by (simp add: update_jump_time example_data)
  from on_ground_outside_jump [OF a, of ground_sample rl_values ground_car 1201]
    on_ground_outside_jump [OF a, of jump_sample rl_values ground_car 1201] b c
  show ?thesis
    by (simp add: example_data)
qed

subsection \<open>The ball-touch counter\<close>

lemma py_round_ge_floor: "\<lfloor>x\<rfloor> \<le> py_round x"
  by (simp add: py_round_def Let_def)

lemma py_round_lower:
  assumes "of_int n \<le> x"
  shows "n \<le> py_round x"
proof -
  from assms have "n \<le> \<lfloor>x\<rfloor>" by (simp add: le_floor_iff)
  with py_round_ge_floor [of x] show ?thesis by (rule order_trans [rotated])
qed

lemma py_round_of_int: "py_round (of_int n) = n"
  by (simp add: py_round_def Let_def)

lemma old_touch_not_counted:
  assumes unit: "TICK_TIME K * TICKS_PER_SECOND K = 1" and pos: "0 < TICKS_PER_SECOND K"
    and touch: "pi_latest_touch p = Some ts" and old: "ts \<le> game_seconds self"
  shows "ball_touches (update K self p t None) = ball_touches self"
proof -
  let ?n = "t - cur_tick self"
  have "(game_seconds self + TICK_TIME K * of_int ?n - ts) * TICKS_PER_SECOND K =
      (game_seconds self - ts) * TICKS_PER_SECOND K
        + (TICK_TIME K * TICKS_PER_SECOND K) * of_int ?n"
    by (simp add: algebra_simps)
  also have "\<dots> = (game_seconds self - ts) * TICKS_PER_SECOND K + of_int ?n"
    by (simp add: unit)
  finally have eq: "(game_seconds self + TICK_TIME K * of_int ?n - ts) * TICKS_PER_SECOND K =
      (game_seconds self - ts) * TICKS_PER_SECOND K + of_int ?n" .
  have "0 \<le> (game_seconds self - ts) * TICKS_PER_SECOND K"
    using old pos by simp
  then have "of_int ?n \<le> (game_seconds self + TICK_TIME K * of_int ?n - ts)
      * TICKS_PER_SECOND K"
    unfolding eq by simp
  then have "?n \<le> py_round ((game_seconds self + TICK_TIME K * of_int ?n - ts)
      * TICKS_PER_SECOND K)"
    by (rule py_round_lower)
  then show ?thesis
    by (simp add: update_ball_touches_None touch)
qed

text \<open>
  Claim C3 says that every call of \<open>update\<close> adds exactly 1 to the counter when the touch
  lies in the elapsed interval, and that \<open>update\<close> itself never sets the counter to 0.
  The override block of \<open>update\<close> contradicts both: with a touch inside the interval and
  a counter of 2, a call whose override record carries the touch count 0 leaves the
  counter at 0, where the call without override record leaves it at 3.
\<close>

theorem touch_count_overridden:
  "py_round ((game_seconds touched_car + TICK_TIME rl_values * of_int (1201 - cur_tick touched_car)
               - (10 + 1 / 120)) * TICKS_PER_SECOND rl_values) < 1201 - cur_tick touched_car
   \<and> ball_touches touched_car = 2
   \<and> ball_touches (update rl_values touched_car touch_sample 1201 None) = 3
   \<and> ball_touches (update rl_values touched_car touch_sample 1201 (Some zero_touches)) = 0"
  by (simp add: update_Some apply_extra_player_info_Some update_ball_touches_None py_round_def
      Let_def example_data)

text \<open>
  The comparison is against the car's own clock. A touch stamped later than that clock
  is counted at every call until the clock has caught up: here twice, at the ticks 1201
  and 1202, for one and the same time stamp.
\<close>

lemma early_touch_counted_twice:
  "ball_touches (update rl_values ground_car early_touch_sample 1201 None) = 1
   \<and> ball_touches
        (update rl_values (update rl_values ground_car early_touch_sample 1201 None)
           early_touch_sample 1202 None) = 2"
  by (simp add: update_ball_touches_None update_game_seconds update_cur_tick py_round_def
      Let_def example_data)

text \<open>
  Claim C3, amended. For every call of \<open>update\<close> in which no touch-count override is
  applied: the counter grows by exactly 1 when the sample has a latest touch with
  \<open>round((game_seconds - touch.game_seconds) * TICKS_PER_SECOND) < ticks_elapsed\<close>, for
  the clock \<open>game_seconds\<close> after the call, and is unchanged otherwise, so that the call
  never lowers it. If moreover \<open>TICK_TIME * TICKS_PER_SECOND = 1\<close> with
  \<open>TICKS_PER_SECOND > 0\<close> and the time stamp of a touch is not later than the clock
  after the call, then a following call without
  override record that reports this time stamp does not count it. The operation
  \<open>reset_ball_touches\<close> sets the counter to 0.
\<close>

theorem ball_touches_update:
  assumes "\<forall>extra. extra_player_info = Some extra \<longrightarrow> x_ball_touches extra = None"
  shows "ball_touches (update K self player_info game_tick extra_player_info) =
           ball_touches self +
             (case pi_latest_touch player_info of
                None \<Rightarrow> 0
              | Some touch_game_seconds \<Rightarrow>
                  if py_round
                       ((game_seconds (update K self player_info game_tick extra_player_info)
                           - touch_game_seconds) * TICKS_PER_SECOND K)
                     < game_tick - cur_tick self
                  then 1 else 0)
         \<and> ball_touches self
             \<le> ball_touches (update K self player_info game_tick extra_player_info)
         \<and> (TICK_TIME K * TICKS_PER_SECOND K = 1 \<and> 0 < TICKS_PER_SECOND K
              \<and> pi_latest_touch next_info = Some touch_game_seconds
              \<and> touch_game_seconds
                  \<le> game_seconds (update K self player_info game_tick extra_player_info)
            \<longrightarrow> ball_touches
                  (update K (update K self player_info game_tick extra_player_info)
                     next_info next_tick None) =
                ball_touches (update K self player_info game_tick extra_player_info))
         \<and> ball_touches
             (reset_ball_touches (update K self player_info game_tick extra_player_info)) = 0"
proof (intro conjI impI)
  show "ball_touches (update K self player_info game_tick extra_player_info) =
      ball_touches self +
        (case pi_latest_touch player_info of
           None \<Rightarrow> 0
         | Some touch_game_seconds \<Rightarrow>
             if py_round
                  ((game_seconds (update K self player_info game_tick extra_player_info)
                      - touch_game_seconds) * TICKS_PER_SECOND K)
                < game_tick - cur_tick self
             then 1 else 0)"
    by (simp add: update_ball_touches_keep [OF assms] update_ball_touches_None
        update_game_seconds cong: option.case_cong)
next
  show "ball_touches self
      \<le> ball_touches (update K self player_info game_tick extra_player_info)"
    by (simp add: update_ball_touches_keep [OF assms] update_ball_touches_None
        split: option.split)
next
  assume h: "TICK_TIME K * TICKS_PER_SECOND K = 1 \<and> 0 < TICKS_PER_SECOND K
      \<and> pi_latest_touch next_info = Some touch_game_seconds
      \<and> touch_game_seconds
          \<le> game_seconds (update K self player_info game_tick extra_player_info)"
  from h have unit: "TICK_TIME K * TICKS_PER_SECOND K = 1" by (rule conjunct1)
  from h have pos: "0 < TICKS_PER_SECOND K" by blast
  from h have touch: "pi_latest_touch next_info = Some touch_game_seconds" by blast
  from h have old: "touch_game_seconds
      \<le> game_seconds (update K self player_info game_tick extra_player_info)" by blast
  show "ball_touches
       (update K (update K self player_info game_tick extra_player_info)
          next_info next_tick None) =
      ball_touches (update K self player_info game_tick extra_player_info)"
    by (rule old_touch_not_counted [OF unit pos touch old])
next
  show "ball_touches
      (reset_ball_touches (update K self player_info game_tick extra_player_info)) = 0"
    by (simp add: reset_ball_touches_def)
qed

theorem ball_touches_update_witness:
  "ball_touches (update rl_values ground_car touch_sample 1201 None) = 1
   \<and> ball_touches
       (update rl_values (update rl_values ground_car touch_sample 1201 None)
          touch_sample 1202 None) = 1
   \<and> ball_touches
       (reset_ball_touches (update rl_values ground_car touch_sample 1201 None)) = 0"
proof -
  have a: "\<forall>extra. (None :: ExtraPlayerInfo option) = Some extra
             \<longrightarrow> x_ball_touches extra = None"
    by simp
  have b: "game_seconds (update rl_values ground_car touch_sample 1201 None) = 10 + 1 / 120"
    by (simp add: update_game_seconds example_data)
  have c: "pi_latest_touch touch_sample = Some (10 + 1 / 120)"
    by (simp add: touch_sample_def ground_sample_def)
  have d: "TICK_TIME rl_values * TICKS_PER_SECOND rl_values = 1"
    "0 < TICKS_PER_SECOND rl_values" "cur_tick ground_car = 1200"
    "ball_touches ground_car = 0"
    by (simp_all add: rl_values_def ground_car_def)
  from ball_touches_update
    [OF a, of rl_values ground_car touch_sample 1201 touch_sample "10 + 1 / 120" 1202]
  show ?thesis
    by (simp add: b c d py_round_def Let_def)
qed

subsection \<open>The jump timer\<close>

text \<open>
  Claim C5 says that after a transition from \<open>OnGround\<close> to \<open>Jumping\<close> the jump timer
  grows monotonically for as long as \<open>has_jumped\<close> or \<open>is_jumping\<close> stays true. The timer
  is reset by every such transition, also by one that happens while \<open>has_jumped\<close> is still
  reported: jump at tick 1201 (timer 0), a sample on the ground that reports \<open>has_jumped\<close>
  at tick 1202 (timer 1/120), jump again at tick 1203 (timer 0), with \<open>has_jumped\<close> true
  after each of the three calls.
\<close>

theorem jump_time_reset_again:
  "prev_air_state ground_car = OnGround \<and> pi_air_state jump_sample = Jumping
   \<and> jump_time (update rl_values ground_car jump_sample 1201 None) = 0
   \<and> has_jumped (update rl_values ground_car jump_sample 1201 None)
   \<and> jump_time (updates rl_values ground_car rejump_run) = 1 / 120
   \<and> has_jumped (updates rl_values ground_car rejump_run)
   \<and> jump_time (update rl_values (updates rl_values ground_car rejump_run) jump_sample 1203 None)
       = 0
   \<and> has_jumped
       (update rl_values (updates rl_values ground_car rejump_run) jump_sample 1203 None)"
  by (simp add: update_jump_time update_has_jumped
      update_prev_air_state update_is_jumping update_cur_tick example_data)

text \<open>
  A tick index that does not advance lowers the timer as well: \<open>update\<close> accepts it and
  adds the negative \<open>TICK_TIME * ticks_elapsed\<close>.
\<close>

lemma jump_time_goes_back:
  "jump_time jumping_car = 0
   \<and> jump_time (update rl_values jumping_car air_sample 1200 None) = - (1 / 120)"
  by (simp add: update_jump_time example_data)

text \<open>
  Claim C5, amended. A call of \<open>update\<close> whose sample reports \<open>Jumping\<close> when the previous
  sample reported \<open>OnGround\<close> leaves the jump timer at 0. Every other call adds exactly
  \<open>TICK_TIME * ticks_elapsed\<close> to the jump timer when the sample's \<open>has_jumped\<close> or the
  car's \<open>is_jumping\<close> is true, and does not lower the timer when that amount is not
  negative.
\<close>

theorem jump_time_update:
  "(prev_air_state self = OnGround \<and> pi_air_state player_info = Jumping
      \<longrightarrow> jump_time (update K self player_info game_tick extra_player_info) = 0)
   \<and> (\<not> (prev_air_state self = OnGround \<and> pi_air_state player_info = Jumping)
        \<and> (pi_has_jumped player_info \<or> is_jumping self)
      \<longrightarrow> jump_time (update K self player_info game_tick extra_player_info) =
            jump_time self + TICK_TIME K * of_int (game_tick - cur_tick self))
   \<and> (\<not> (prev_air_state self = OnGround \<and> pi_air_state player_info = Jumping)
        \<and> 0 \<le> TICK_TIME K * of_int (game_tick - cur_tick self)
      \<longrightarrow> jump_time self
            \<le> jump_time (update K self player_info game_tick extra_player_info))"
  by (simp add: update_jump_time)

theorem jump_time_update_witness:
  "jump_time (update rl_values ground_car jump_sample 1201 None) = 0
   \<and> jump_time (update rl_values jumping_car air_sample 1207 None) = 6 / 120
   \<and> jump_time jumping_car \<le> jump_time (update rl_values jumping_car air_sample 1207 None)"
  using jump_time_update [of ground_car jump_sample rl_values 1201 None]
    jump_time_update [of jumping_car air_sample rl_values 1207 None]
  by (simp add: example_data)

subsection \<open>The override record\<close>

text \<open>
  Claim C8. For every call of \<open>update\<close> with an override record, compared with the same
  call without one (the values just computed): the wheel contacts, the handbrake, the
  touch count and the autoflip flag, timer and direction are the override's value when
  the field is present, and the computed value when it is absent. The bump victim is
  overridden when both the contact id and the cooldown are present: it is the contact id
  when the cooldown is positive and absent when the cooldown is 0 or less; when either
  of the two fields is absent it is unchanged.
\<close>

theorem override_fieldwise:
  "wheels_with_contact (update K self player_info game_tick (Some extra)) =
     (case x_wheels_with_contact extra of
        Some w \<Rightarrow> w
      | None \<Rightarrow> wheels_with_contact (update K self player_info game_tick None))
   \<and> handbrake (update K self player_info game_tick (Some extra)) =
     (case x_handbrake extra of
        Some h \<Rightarrow> h
      | None \<Rightarrow> handbrake (update K self player_info game_tick None))
   \<and> ball_touches (update K self player_info game_tick (Some extra)) =
     (case x_ball_touches extra of
        Some n \<Rightarrow> n
      | None \<Rightarrow> ball_touches (update K self player_info game_tick None))
   \<and> bump_victim_id (update K self player_info game_tick (Some extra)) =
     (case x_car_contact_id extra of
        None \<Rightarrow> bump_victim_id (update K self player_info game_tick None)
      | Some victim \<Rightarrow>
          (case x_car_contact_cooldown_timer extra of
             None \<Rightarrow> bump_victim_id (update K self player_info game_tick None)
           | Some cooldown \<Rightarrow> if 0 < cooldown then Some victim else None))
   \<and> is_autoflipping (update K self player_info game_tick (Some extra)) =
     (case x_is_autoflipping extra of
        Some b \<Rightarrow> b
      | None \<Rightarrow> is_autoflipping (update K self player_info game_tick None))
   \<and> autoflip_timer (update K self player_info game_tick (Some extra)) =
     (case x_autoflip_timer extra of
        Some a \<Rightarrow> a
      | None \<Rightarrow> autoflip_timer (update K self player_info game_tick None))
   \<and> autoflip_direction (update K self player_info game_tick (Some extra)) =
     (case x_autoflip_direction extra of
        Some d \<Rightarrow> d
      | None \<Rightarrow> autoflip_direction (update K self player_info game_tick None))"
  by (simp add: update_Some apply_extra_player_info_Some cong: option.case_cong)

theorem override_fieldwise_witness:
  "handbrake (update rl_values bumped_car ground_sample 1201 (Some bump_over)) = 1 / 2
   \<and> bump_victim_id (update rl_values bumped_car ground_sample 1201 (Some bump_over)) = None
   \<and> ball_touches (update rl_values bumped_car ground_sample 1201 (Some bump_over)) =
       ball_touches (update rl_values bumped_car ground_sample 1201 None)
   \<and> bump_victim_id (update rl_values bumped_car ground_sample 1201 (Some bump_active))
       = Some 5
   \<and> ball_touches (update rl_values bumped_car ground_sample 1201 (Some bump_active)) = 7
   \<and> handbrake (update rl_values bumped_car ground_sample 1201 (Some bump_active)) =
       handbrake (update rl_values bumped_car ground_sample 1201 None)"
  using override_fieldwise [of rl_values bumped_car ground_sample 1201 bump_over]
    override_fieldwise [of rl_values bumped_car ground_sample 1201 bump_active]
  by (simp add: bump_over_def bump_active_def no_extra_def)

end
